theory Spec2Isabelle
  imports Main "HOL-Library.Word"
begin

section \<open>Go values shared by both files\<close>

text \<open>
  A Go \<^verbatim>\<open>error\<close> is modelled as \<open>error option\<close>: \<open>None\<close> is \<^verbatim>\<open>nil\<close>,
  \<open>Some m\<close> an error with message \<open>m\<close>. A value of type \<^verbatim>\<open>interface{}\<close> is
  \<open>'m option\<close>, with \<open>None\<close> for \<^verbatim>\<open>nil\<close>.
\<close>

type_synonym error = string

section \<open>rpc\_stream.go: the stream\<close>

subsection \<open>Data\<close>

text \<open>
  The \<^verbatim>\<open>Request\<close> interface of server.go is a set of accessors without arguments;
  a request is the record of what they return.
\<close>

record 'm Request =
  Service :: string
  Method :: string
  ContentType :: string
  Request :: "'m option"
  Stream :: bool

text \<open>
  The envelope written by \<^verbatim>\<open>Send\<close>. The struct is declared outside the two files;
  the composite literal in \<^verbatim>\<open>Send\<close> sets the fields \<^verbatim>\<open>ServiceMethod\<close> and \<^verbatim>\<open>Seq\<close>
  and leaves every other field at its zero value.
\<close>

record response =
  ServiceMethod :: string
  Seq :: "64 word"

text \<open>
  The codec is an external collaborator. A call to it is a value; the codec itself is
  the function that gives the error returned by a call, from the calls made on it so far.
  \<open>ReadRequestHeader b\<close> is \<^verbatim>\<open>ReadRequestHeader(&req, b)\<close> on a fresh \<^verbatim>\<open>request{}\<close>;
  \<open>ReadRequestBody None\<close> is \<^verbatim>\<open>ReadRequestBody(nil)\<close>, the discard of a body.
\<close>

datatype 'm codec_call =
    ReadRequestHeader bool
  | ReadRequestBody "'m option"
  | WriteResponse response "'m option" bool
  | Close

type_synonym 'm serverCodec = "'m codec_call list \<Rightarrow> 'm codec_call \<Rightarrow> error option"

text \<open>
  The struct \<^verbatim>\<open>rpcStream\<close>. The embedded \<^verbatim>\<open>sync.RWMutex\<close> makes every method body
  that takes it a critical section, so the methods are modelled as atomic steps and a
  concurrent use of one stream as a sequence of such steps. The type is unexported and
  its \<^verbatim>\<open>request\<close> and \<^verbatim>\<open>codec\<close> are set, not nil, where a stream is made.
\<close>

record ('m, 'c) rpcStream =
  seq :: "64 word"
  closed :: bool
  err :: "error option"
  request :: "'m Request"
  codec :: "'m serverCodec"
  context' :: 'c

text \<open>
  What lies outside the stream: the calls its codec has received, in order, and the
  lines written by the standard logger.
\<close>

record 'm world =
  calls :: "'m codec_call list"
  stderr :: "string list"

definition invoke :: "'m serverCodec \<Rightarrow> 'm codec_call \<Rightarrow> 'm world \<Rightarrow> error option \<times> 'm world" where
  "invoke c x w = (c (calls w) x, w\<lparr>calls := calls w @ [x]\<rparr>)"

definition Println :: "string \<Rightarrow> 'm world \<Rightarrow> 'm world" where
  "Println line w = w\<lparr>stderr := stderr w @ [line]\<rparr>"

text \<open>
  Modelled from the spec: the construction of a stream is not in the two files. The spec
  has the sequence counter start at 0, \<^verbatim>\<open>closed\<close> false and the last error nil, with
  the request, the codec and the context fixed at construction.
\<close>

definition newRpcStream :: "'c \<Rightarrow> 'm serverCodec \<Rightarrow> 'm Request \<Rightarrow> ('m, 'c) rpcStream" where
  "newRpcStream ctx cdc req =
     \<lparr>seq = 0, closed = False, err = None, request = req, codec = cdc, context' = ctx\<rparr>"

subsection \<open>Methods\<close>

definition rpcStream_Context :: "('m, 'c) rpcStream \<Rightarrow> 'c" where
  "rpcStream_Context r = context' r"

definition rpcStream_Request :: "('m, 'c) rpcStream \<Rightarrow> 'm Request" where
  "rpcStream_Request r = request r"

definition rpcStream_Send ::
  "('m, 'c) rpcStream \<Rightarrow> 'm option \<Rightarrow> 'm world \<Rightarrow> error option \<times> ('m, 'c) rpcStream \<times> 'm world" where
  "rpcStream_Send r msg w =
     (let seq0 = seq r;
          r1 = r\<lparr>seq := seq r + 1\<rparr>;
          resp = \<lparr>ServiceMethod = Method (request r1), Seq = seq0\<rparr>
      in case invoke (codec r1) (WriteResponse resp msg False) w of
           (None, w1) \<Rightarrow> (None, r1, w1)
         | (Some e, w1) \<Rightarrow> (Some e, r1, Println (''rpc: writing response: '' @ e) w1))"

definition rpcStream_Recv ::
  "('m, 'c) rpcStream \<Rightarrow> 'm option \<Rightarrow> 'm world \<Rightarrow> error option \<times> ('m, 'c) rpcStream \<times> 'm world" where
  "rpcStream_Recv r msg w =
     (case invoke (codec r) (ReadRequestHeader False) w of
        (Some e, w1) \<Rightarrow>
          (case invoke (codec r) (ReadRequestBody None) w1 of
             (_, w2) \<Rightarrow> (Some e, r, w2))
      | (None, w1) \<Rightarrow>
          (case invoke (codec r) (ReadRequestBody msg) w1 of
             (Some e, w2) \<Rightarrow> (Some e, r, w2)
           | (None, w2) \<Rightarrow> (None, r, w2)))"

definition rpcStream_Error :: "('m, 'c) rpcStream \<Rightarrow> error option" where
  "rpcStream_Error r = err r"

definition rpcStream_Close ::
  "('m, 'c) rpcStream \<Rightarrow> 'm world \<Rightarrow> error option \<times> ('m, 'c) rpcStream \<times> 'm world" where
  "rpcStream_Close r w =
     (let r1 = r\<lparr>closed := True\<rparr>
      in case invoke (codec r1) Close w of (e, w1) \<Rightarrow> (e, r1, w1))"

subsection \<open>Uses of a stream\<close>

text \<open>
  A use of a stream is a sequence of method calls; \<open>run\<close> performs them in order and
  collects what each returned.
\<close>

datatype 'm op =
    OpContext
  | OpRequest
  | OpSend "'m option"
  | OpRecv "'m option"
  | OpError
  | OpClose

datatype ('m, 'c) ret =
    RetContext 'c
  | RetRequest "'m Request"
  | RetError "error option"

fun step ::
  "'m op \<Rightarrow> ('m, 'c) rpcStream \<Rightarrow> 'm world \<Rightarrow> ('m, 'c) ret \<times> ('m, 'c) rpcStream \<times> 'm world" where
  "step OpContext r w = (RetContext (rpcStream_Context r), r, w)"
| "step OpRequest r w = (RetRequest (rpcStream_Request r), r, w)"
| "step (OpSend msg) r w = (case rpcStream_Send r msg w of (e, r1, w1) \<Rightarrow> (RetError e, r1, w1))"
| "step (OpRecv msg) r w = (case rpcStream_Recv r msg w of (e, r1, w1) \<Rightarrow> (RetError e, r1, w1))"
| "step OpError r w = (RetError (rpcStream_Error r), r, w)"
| "step OpClose r w = (case rpcStream_Close r w of (e, r1, w1) \<Rightarrow> (RetError e, r1, w1))"

fun run ::
  "'m op list \<Rightarrow> ('m, 'c) rpcStream \<Rightarrow> 'm world \<Rightarrow> ('m, 'c) ret list \<times> ('m, 'c) rpcStream \<times> 'm world" where
  "run [] r w = ([], r, w)"
| "run (x # xs) r w =
     (case step x r w of (y, r1, w1) \<Rightarrow>
        (case run xs r1 w1 of (ys, r2, w2) \<Rightarrow> (y # ys, r2, w2)))"

text \<open>The envelopes handed to the codec's write primitive, in the order of the calls.\<close>

fun envelopes :: "'m codec_call list \<Rightarrow> response list" where
  "envelopes [] = []"
| "envelopes (WriteResponse resp msg flag # cs) = resp # envelopes cs"
| "envelopes (c # cs) = envelopes cs"

fun sends :: "'m op list \<Rightarrow> nat" where
  "sends [] = 0"
| "sends (OpSend msg # xs) = Suc (sends xs)"
| "sends (x # xs) = sends xs"

subsection \<open>Codecs and requests used in the examples\<close>

definition greeter :: "string Request" where
  "greeter = \<lparr>Service = ''Greeter'', Method = ''Hello'', ContentType = ''application/json'',
     Request = None, Stream = True\<rparr>"

definition fake_codec :: "string serverCodec" where
  "fake_codec h c = None"

definition eof_codec :: "string serverCodec" where
  "eof_codec h c = (case c of ReadRequestHeader b \<Rightarrow> Some ''EOF'' | _ \<Rightarrow> None)"

definition broken_codec :: "string serverCodec" where
  "broken_codec h c = (case c of ReadRequestHeader b \<Rightarrow> None | _ \<Rightarrow> Some ''broken pipe'')"

definition flaky_codec :: "string serverCodec" where
  "flaky_codec h c = (if envelopes h = [] then Some ''broken pipe'' else None)"

definition w0 :: "string world" where
  "w0 = \<lparr>calls = [], stderr = []\<rparr>"

section \<open>server.go: the default server\<close>

subsection \<open>Data\<close>

text \<open>
  Modelled from the spec: the \<^verbatim>\<open>options\<close> structure is declared outside the two files.
  The spec lists the name and the identity among the configuration; these are the two
  that \<^verbatim>\<open>Start\<close> reads, through \<^verbatim>\<open>Name()\<close> and \<^verbatim>\<open>Id()\<close>.
\<close>

record options =
  Name :: string
  Id :: string

text \<open>
  What a function of the package does when called: it returns, it panics (a method call
  on a nil interface value), or it blocks for ever (a receive on a channel that is never
  sent to).
\<close>

datatype 'a outcome = Returned 'a | Panic | Blocked

datatype signal = SIGTERM | SIGINT | SIGKILL

text \<open>
  The methods of the \<^verbatim>\<open>Server\<close> interface that \<^verbatim>\<open>Config\<close>, \<^verbatim>\<open>Init\<close>, \<^verbatim>\<open>Handle\<close>,
  \<^verbatim>\<open>Subscribe\<close>, \<^verbatim>\<open>Register\<close>, \<^verbatim>\<open>Deregister\<close>, \<^verbatim>\<open>Run\<close>, \<^verbatim>\<open>Start\<close>, \<^verbatim>\<open>Stop\<close> and
  \<^verbatim>\<open>String\<close> call on the default server. (\<^verbatim>\<open>NewHandler\<close> and \<^verbatim>\<open>NewSubscriber\<close> build
  the descriptors that \<^verbatim>\<open>Handle\<close> and \<^verbatim>\<open>Subscribe\<close> take; no property below is about
  them.) An \<^verbatim>\<open>Option\<close> is a function on options; server.go only passes options on,
  so they are the values of a type \<open>'o\<close>, as handlers are of \<open>'h\<close> and subscribers
  of \<open>'u\<close>.
\<close>

datatype ('o, 'h, 'u) server_method =
    CallConfig
  | CallInit "'o list"
  | CallHandle 'h
  | CallSubscribe 'u
  | CallRegister
  | CallDeregister
  | CallStart
  | CallStop
  | CallString

text \<open>
  What the package does to the world outside it, in order: \<open>New n opt\<close> is the
  construction \<^verbatim>\<open>newRpcServer(opt...)\<close> of the server with reference \<open>n\<close>,
  \<open>Call n m\<close> a call of method \<open>m\<close> on that server, \<open>Logged line\<close> a line
  written by \<^verbatim>\<open>log.Infof\<close>, \<open>Notify sigs\<close> the call of \<^verbatim>\<open>signal.Notify\<close> and
  \<open>Receive sig\<close> the receipt of a signal from the channel.
\<close>

datatype ('o, 'h, 'u) event =
    New nat "'o list"
  | Call nat "('o, 'h, 'u) server_method"
  | Logged string
  | Notify "signal list"
  | Receive signal

text \<open>The events that concern the server \<open>n\<close>: its construction and the calls on it.\<close>

fun concerns :: "nat \<Rightarrow> ('o, 'h, 'u) event \<Rightarrow> bool" where
  "concerns n (New k opt) = (k = n)"
| "concerns n (Call k m) = (k = n)"
| "concerns n e = False"

definition history :: "nat \<Rightarrow> ('o, 'h, 'u) event list \<Rightarrow> ('o, 'h, 'u) event list" where
  "history n es = filter (concerns n) es"

text \<open>
  The implementation of the server and the operating system are outside the two files.
  What a method of a server returns is a function of that server's history; the signal
  that arrives, if one does, is a function of all that happened before.
\<close>

record ('o, 'h, 'u) env =
  reply_error :: "('o, 'h, 'u) event list \<Rightarrow> ('o, 'h, 'u) server_method \<Rightarrow> error option"
  reply_options :: "('o, 'h, 'u) event list \<Rightarrow> options"
  reply_string :: "('o, 'h, 'u) event list \<Rightarrow> string"
  next_signal :: "('o, 'h, 'u) event list \<Rightarrow> signal option"

text \<open>
  The state of the package: the variable \<^verbatim>\<open>DefaultServer\<close>, nil or a reference to a
  server, and the events so far.
\<close>

record ('o, 'h, 'u) package =
  DefaultServer :: "nat option"
  events :: "('o, 'h, 'u) event list"

definition emit :: "('o, 'h, 'u) event \<Rightarrow> ('o, 'h, 'u) package \<Rightarrow> ('o, 'h, 'u) package" where
  "emit e st = st\<lparr>events := events st @ [e]\<rparr>"

text \<open>
  Modelled from the spec: \<^verbatim>\<open>newRpcServer\<close> is not in the two files. It constructs a
  new server from the options; the new server's reference is one not used before.
\<close>

definition newRpcServer :: "'o list \<Rightarrow> ('o, 'h, 'u) package \<Rightarrow> nat \<times> ('o, 'h, 'u) package" where
  "newRpcServer opt st = (length (events st), emit (New (length (events st)) opt) st)"

text \<open>
  A method call \<^verbatim>\<open>DefaultServer.M(...)\<close>: a panic when the variable is nil, otherwise
  the call on the server it refers to, which returns what \<open>reply\<close> gives for the
  server's history.
\<close>

definition call ::
  "(('o, 'h, 'u) event list \<Rightarrow> 'a) \<Rightarrow> ('o, 'h, 'u) server_method \<Rightarrow> ('o, 'h, 'u) package
     \<Rightarrow> 'a outcome \<times> ('o, 'h, 'u) package" where
  "call reply m st =
     (case DefaultServer st of
        None \<Rightarrow> (Panic, st)
      | Some n \<Rightarrow> (Returned (reply (history n (events st))), emit (Call n m) st))"

definition and_then ::
  "'a outcome \<times> 's \<Rightarrow> ('a \<Rightarrow> 's \<Rightarrow> 'b outcome \<times> 's) \<Rightarrow> 'b outcome \<times> 's" where
  "and_then x f =
     (case x of
        (Returned a, st) \<Rightarrow> f a st
      | (Panic, st) \<Rightarrow> (Panic, st)
      | (Blocked, st) \<Rightarrow> (Blocked, st))"

definition signal_name :: "signal \<Rightarrow> string" where
  "signal_name sig = (case sig of SIGTERM \<Rightarrow> ''terminated'' | SIGINT \<Rightarrow> ''interrupt'' | SIGKILL \<Rightarrow> ''killed'')"

subsection \<open>The package\<close>

text \<open>
  The initialisation of the package variable, \<^verbatim>\<open>DefaultServer Server = newRpcServer()\<close>,
  which Go runs before any function of the package can be called; \<open>es\<close> are the
  events before it.
\<close>

definition package_init :: "('o, 'h, 'u) event list \<Rightarrow> ('o, 'h, 'u) package" where
  "package_init es =
     (case newRpcServer [] \<lparr>DefaultServer = None, events = es\<rparr> of
        (n, st) \<Rightarrow> st\<lparr>DefaultServer := Some n\<rparr>)"

definition Config :: "('o, 'h, 'u) env \<Rightarrow> ('o, 'h, 'u) package \<Rightarrow> options outcome \<times> ('o, 'h, 'u) package" where
  "Config env st = call (reply_options env) CallConfig st"

definition Init ::
  "('o, 'h, 'u) env \<Rightarrow> 'o list \<Rightarrow> ('o, 'h, 'u) package \<Rightarrow> unit outcome \<times> ('o, 'h, 'u) package" where
  "Init env opt st =
     (let st1 = (if DefaultServer st = None
                 then (case newRpcServer opt st of (n, st') \<Rightarrow> st'\<lparr>DefaultServer := Some n\<rparr>)
                 else st)
      in call (\<lambda>h. ()) (CallInit opt) st1)"

definition NewServer :: "'o list \<Rightarrow> ('o, 'h, 'u) package \<Rightarrow> nat \<times> ('o, 'h, 'u) package" where
  "NewServer opt st = newRpcServer opt st"

definition Handle ::
  "('o, 'h, 'u) env \<Rightarrow> 'h \<Rightarrow> ('o, 'h, 'u) package \<Rightarrow> error option outcome \<times> ('o, 'h, 'u) package" where
  "Handle env h st = call (\<lambda>es. reply_error env es (CallHandle h)) (CallHandle h) st"

definition Subscribe ::
  "('o, 'h, 'u) env \<Rightarrow> 'u \<Rightarrow> ('o, 'h, 'u) package \<Rightarrow> error option outcome \<times> ('o, 'h, 'u) package" where
  "Subscribe env s st = call (\<lambda>es. reply_error env es (CallSubscribe s)) (CallSubscribe s) st"

definition Register ::
  "('o, 'h, 'u) env \<Rightarrow> ('o, 'h, 'u) package \<Rightarrow> error option outcome \<times> ('o, 'h, 'u) package" where
  "Register env st = call (\<lambda>es. reply_error env es CallRegister) CallRegister st"

definition Deregister ::
  "('o, 'h, 'u) env \<Rightarrow> ('o, 'h, 'u) package \<Rightarrow> error option outcome \<times> ('o, 'h, 'u) package" where
  "Deregister env st = call (\<lambda>es. reply_error env es CallDeregister) CallDeregister st"

definition Start ::
  "('o, 'h, 'u) env \<Rightarrow> ('o, 'h, 'u) package \<Rightarrow> error option outcome \<times> ('o, 'h, 'u) package" where
  "Start env st =
     and_then (call (reply_options env) CallConfig st) (\<lambda>config st1.
       call (\<lambda>es. reply_error env es CallStart) CallStart
         (emit (Logged (''Starting server '' @ Name config @ '' id '' @ Id config)) st1))"

definition Stop ::
  "('o, 'h, 'u) env \<Rightarrow> ('o, 'h, 'u) package \<Rightarrow> error option outcome \<times> ('o, 'h, 'u) package" where
  "Stop env st =
     call (\<lambda>es. reply_error env es CallStop) CallStop (emit (Logged ''Stopping server'') st)"

definition String' :: "('o, 'h, 'u) env \<Rightarrow> ('o, 'h, 'u) package \<Rightarrow> string outcome \<times> ('o, 'h, 'u) package" where
  "String' env st = call (reply_string env) CallString st"

definition Run ::
  "('o, 'h, 'u) env \<Rightarrow> ('o, 'h, 'u) package \<Rightarrow> error option outcome \<times> ('o, 'h, 'u) package" where
  "Run env st =
     and_then (Start env st) (\<lambda>e1 st1.
       case e1 of
         Some e \<Rightarrow> (Returned (Some e), st1)
       | None \<Rightarrow>
           and_then (call (\<lambda>es. reply_error env es CallRegister) CallRegister st1) (\<lambda>e2 st2.
             case e2 of
               Some e \<Rightarrow> (Returned (Some e), st2)
             | None \<Rightarrow>
                 (let st3 = emit (Notify [SIGTERM, SIGINT, SIGKILL]) st2
                  in case next_signal env (events st3) of
                       None \<Rightarrow> (Blocked, st3)
                     | Some sig \<Rightarrow>
                         and_then
                           (call (\<lambda>es. reply_error env es CallDeregister) CallDeregister
                              (emit (Logged (''Received signal '' @ signal_name sig))
                                 (emit (Receive sig) st3)))
                           (\<lambda>e3 st4.
                              case e3 of
                                Some e \<Rightarrow> (Returned (Some e), st4)
                              | None \<Rightarrow> Stop env st4))))"



subsection \<open>Environments used in the examples\<close>

definition quiet_env :: "(string, string, string) env" where
  "quiet_env =
     \<lparr>reply_error = (\<lambda>es m. None),
      reply_options = (\<lambda>es. \<lparr>Name = ''go-server'', Id = ''7''\<rparr>),
      reply_string = (\<lambda>es. ''rpc''),
      next_signal = (\<lambda>es. Some SIGTERM)\<rparr>"




definition nil_package :: "(string, string, string) package" where
  "nil_package = \<lparr>DefaultServer = None, events = []\<rparr>"

section \<open>Properties of the stream\<close>

subsection \<open>What each method does to the stream and to the codec\<close>

lemma envelopes_append: "envelopes (xs @ ys) = envelopes xs @ envelopes ys"
  by (induction xs rule: envelopes.induct) auto

lemma Send_effect:
  assumes "rpcStream_Send r msg w = (e, r1, w1)"
  shows "r1 = r\<lparr>seq := seq r + 1\<rparr>"
    and "calls w1 = calls w @ [WriteResponse \<lparr>ServiceMethod = Method (request r), Seq = seq r\<rparr> msg False]"
    and "e = codec r (calls w) (WriteResponse \<lparr>ServiceMethod = Method (request r), Seq = seq r\<rparr> msg False)"
  using assms
  by (auto simp: rpcStream_Send_def invoke_def Println_def Let_def split: option.splits)

lemma Recv_effect:
  assumes "rpcStream_Recv r msg w = (e, r1, w1)"
  shows "r1 = r"
    and "envelopes (calls w1) = envelopes (calls w)"
  using assms
  by (auto simp: rpcStream_Recv_def invoke_def envelopes_append split: option.splits)

lemma Close_effect:
  assumes "rpcStream_Close r w = (e, r1, w1)"
  shows "r1 = r\<lparr>closed := True\<rparr>"
    and "calls w1 = calls w @ [Close]"
    and "e = codec r (calls w) Close"
  using assms
  by (auto simp: rpcStream_Close_def invoke_def Let_def)

lemma step_envelopes:
  assumes "step x r w = (y, r1, w1)"
  shows "envelopes (calls w1) = envelopes (calls w) @
           (case x of OpSend msg \<Rightarrow> [\<lparr>ServiceMethod = Method (request r), Seq = seq r\<rparr>] | _ \<Rightarrow> [])"
    and "seq r1 = (case x of OpSend msg \<Rightarrow> seq r + 1 | _ \<Rightarrow> seq r)"
    and "request r1 = request r"
proof -
  show "envelopes (calls w1) = envelopes (calls w) @
           (case x of OpSend msg \<Rightarrow> [\<lparr>ServiceMethod = Method (request r), Seq = seq r\<rparr>] | _ \<Rightarrow> [])"
    using assms
    by (cases x)
       (auto simp: envelopes_append split: prod.splits
             dest: Send_effect(2) Recv_effect(2) Close_effect(2))
  show "seq r1 = (case x of OpSend msg \<Rightarrow> seq r + 1 | _ \<Rightarrow> seq r)"
    using assms
    by (cases x) (auto split: prod.splits dest: Send_effect(1) Recv_effect(1) Close_effect(1))
  show "request r1 = request r"
    using assms
    by (cases x) (auto split: prod.splits dest: Send_effect(1) Recv_effect(1) Close_effect(1))
qed

lemma run_envelopes:
  "run xs r w = (ys, r1, w1) \<Longrightarrow>
     envelopes (calls w1) = envelopes (calls w) @
       map (\<lambda>k. \<lparr>ServiceMethod = Method (request r), Seq = seq r + word_of_nat k\<rparr>) [0..<sends xs]
     \<and> seq r1 = seq r + word_of_nat (sends xs)
     \<and> request r1 = request r"
proof (induction xs arbitrary: r w ys r1 w1)
  case Nil
  then show ?case by simp
next
  case (Cons x xs)
  obtain y r' w' where st: "step x r w = (y, r', w')"
    by (cases "step x r w") auto
  obtain ys' where rest: "run xs r' w' = (ys', r1, w1)"
    using Cons.prems st by (auto split: prod.splits)
  note ih = Cons.IH [OF rest]
  note se = step_envelopes [OF st]
  show ?case
  proof (cases x)
    case (OpSend msg)
    have shift: "[0..<Suc (sends xs)] = 0 # map Suc [0..<sends xs]"
      by (simp add: upt_conv_Cons map_Suc_upt)
    show ?thesis
      using ih se OpSend
      by (simp add: shift comp_def add.assoc del: upt_Suc)
  qed (use ih se in simp_all)
qed

subsection \<open>Sequence numbers\<close>

text \<open>
  C1, as the code has it. The counter starts at 0 and \<^verbatim>\<open>Send\<close> increments it before
  the write and whatever the write returns: in any use of a new stream, with
  \<open>N\<close> calls of \<^verbatim>\<open>Send\<close> among calls of the other methods, the envelopes handed to
  the codec carry the request's method and the sequence numbers \<open>0, 1, ..., N - 1\<close>
  (as 64-bit values) in call order, the counter ends at \<open>N\<close>, and no other method
  changes it. When no write fails, these are the numbers of the \<open>N\<close> successful Sends.
\<close>

theorem Send_sequence_numbers:
  assumes "run xs (newRpcStream ctx cdc req) w = (ys, r1, w1)"
  shows "envelopes (calls w1) = envelopes (calls w) @
           map (\<lambda>k. \<lparr>ServiceMethod = Method req, Seq = word_of_nat k\<rparr>) [0..<sends xs]
       \<and> seq r1 = word_of_nat (sends xs)
       \<and> (sends xs \<le> 2 ^ 64 \<longrightarrow>
           map (unat \<circ> Seq) (drop (length (envelopes (calls w))) (envelopes (calls w1)))
             = [0..<sends xs])"
proof -
  have init: "seq (newRpcStream ctx cdc req) = 0" "request (newRpcStream ctx cdc req) = req"
    by (simp_all add: newRpcStream_def)
  have env: "envelopes (calls w1) = envelopes (calls w) @
           map (\<lambda>k. \<lparr>ServiceMethod = Method req, Seq = word_of_nat k\<rparr>) [0..<sends xs]"
    using run_envelopes [OF assms] by (simp add: init)
  have cnt: "seq r1 = word_of_nat (sends xs)"
    using run_envelopes [OF assms] by (simp add: init)
  have nums: "map (unat \<circ> Seq) (drop (length (envelopes (calls w))) (envelopes (calls w1)))
             = [0..<sends xs]" if bound: "sends xs \<le> 2 ^ 64"
  proof -
    have "unat (word_of_nat k :: 64 word) = k" if "k < sends xs" for k
    proof -
      have "k < 2 ^ 64" using that bound by simp
      then show ?thesis by (simp add: unat_of_nat)
    qed
    then have "map (\<lambda>k. unat (word_of_nat k :: 64 word)) [0..<sends xs] = map (\<lambda>k. k) [0..<sends xs]"
      by (intro map_cong) auto
    then show ?thesis
      by (simp add: env comp_def)
  qed
  show ?thesis
    using env cnt nums by blast
qed

theorem Send_sequence_numbers_witness:
  "run [OpSend (Some ''a''), OpRecv None, OpSend (Some ''b''), OpError, OpSend None]
       (newRpcStream () fake_codec greeter) w0
     = ([RetError None, RetError None, RetError None, RetError None, RetError None],
        (newRpcStream () fake_codec greeter)\<lparr>seq := 3\<rparr>,
        w0\<lparr>calls := [WriteResponse \<lparr>ServiceMethod = ''Hello'', Seq = 0\<rparr> (Some ''a'') False,
                      ReadRequestHeader False, ReadRequestBody None,
                      WriteResponse \<lparr>ServiceMethod = ''Hello'', Seq = 1\<rparr> (Some ''b'') False,
                      WriteResponse \<lparr>ServiceMethod = ''Hello'', Seq = 2\<rparr> None False]\<rparr>)
   \<and> map (unat \<circ> Seq)
        (envelopes (calls (snd (snd (run [OpSend (Some ''a''), OpRecv None, OpSend (Some ''b''), OpError, OpSend None]
           (newRpcStream () fake_codec greeter) w0))))) = [0, 1, 2]"
proof -
  have r: "run [OpSend (Some ''a''), OpRecv None, OpSend (Some ''b''), OpError, OpSend None]
       (newRpcStream () fake_codec greeter) w0
     = ([RetError None, RetError None, RetError None, RetError None, RetError None],
        (newRpcStream () fake_codec greeter)\<lparr>seq := 3\<rparr>,
        w0\<lparr>calls := [WriteResponse \<lparr>ServiceMethod = ''Hello'', Seq = 0\<rparr> (Some ''a'') False,
                      ReadRequestHeader False, ReadRequestBody None,
                      WriteResponse \<lparr>ServiceMethod = ''Hello'', Seq = 1\<rparr> (Some ''b'') False,
                      WriteResponse \<lparr>ServiceMethod = ''Hello'', Seq = 2\<rparr> None False]\<rparr>)"
    by (simp add: rpcStream_Send_def rpcStream_Recv_def rpcStream_Error_def invoke_def
        newRpcStream_def fake_codec_def greeter_def w0_def)
  have n: "sends [OpSend (Some ''a''), OpRecv None, OpSend (Some ''b''), OpError, OpSend None] = 3"
    by simp
  have u: "[0..<3] = [0, 1, 2::nat]"
    by (simp add: upt_conv_Cons)
  show ?thesis
    using Send_sequence_numbers [OF r] r
    by (simp add: n u w0_def)
qed

text \<open>
  The claim as written speaks of the successful Sends only. A Send whose write fails
  takes a number too: on a codec whose first write fails, the one successful Send of the
  stream is given the number 1, not 0.
\<close>

theorem failed_Send_takes_a_number:
  "rpcStream_Send (newRpcStream () flaky_codec greeter) (Some ''a'') w0
     = (Some ''broken pipe'', (newRpcStream () flaky_codec greeter)\<lparr>seq := 1\<rparr>,
        \<lparr>calls = [WriteResponse \<lparr>ServiceMethod = ''Hello'', Seq = 0\<rparr> (Some ''a'') False],
         stderr = [''rpc: writing response: broken pipe'']\<rparr>)
   \<and> rpcStream_Send ((newRpcStream () flaky_codec greeter)\<lparr>seq := 1\<rparr>) (Some ''b'')
        \<lparr>calls = [WriteResponse \<lparr>ServiceMethod = ''Hello'', Seq = 0\<rparr> (Some ''a'') False],
         stderr = [''rpc: writing response: broken pipe'']\<rparr>
     = (None, (newRpcStream () flaky_codec greeter)\<lparr>seq := 2\<rparr>,
        \<lparr>calls = [WriteResponse \<lparr>ServiceMethod = ''Hello'', Seq = 0\<rparr> (Some ''a'') False,
                  WriteResponse \<lparr>ServiceMethod = ''Hello'', Seq = 1\<rparr> (Some ''b'') False],
         stderr = [''rpc: writing response: broken pipe'']\<rparr>)"
  by (simp add: rpcStream_Send_def invoke_def Println_def newRpcStream_def flaky_codec_def
      greeter_def w0_def)

subsection \<open>Recv\<close>

text \<open>
  C2. When the header read fails, \<^verbatim>\<open>Recv\<close> makes exactly two calls on the codec, the
  header read and one discard of the body (\<^verbatim>\<open>ReadRequestBody(nil)\<close>), and returns the
  header's error, whatever the discard returns. When the header read succeeds, the two
  calls are the header read and the read of the body into the caller's message, with no
  further call: a failure of the body read is returned as it is, and when both succeed
  \<^verbatim>\<open>Recv\<close> returns nil.
\<close>

theorem Recv_header_then_body:
  "(codec r (calls w) (ReadRequestHeader False) = Some e \<longrightarrow>
      rpcStream_Recv r msg w
        = (Some e, r, w\<lparr>calls := calls w @ [ReadRequestHeader False, ReadRequestBody None]\<rparr>)
      \<and> count_list (drop (length (calls w)) (calls (snd (snd (rpcStream_Recv r msg w)))))
           (ReadRequestBody None) = 1)
 \<and> (codec r (calls w) (ReadRequestHeader False) = None \<longrightarrow>
      rpcStream_Recv r msg w
        = (codec r (calls w @ [ReadRequestHeader False]) (ReadRequestBody msg), r,
           w\<lparr>calls := calls w @ [ReadRequestHeader False, ReadRequestBody msg]\<rparr>)
      \<and> (msg \<noteq> None \<longrightarrow>
           count_list (drop (length (calls w)) (calls (snd (snd (rpcStream_Recv r msg w)))))
             (ReadRequestBody None) = 0))"
  by (auto simp: rpcStream_Recv_def invoke_def split: option.splits)

theorem Recv_header_then_body_witness:
  "rpcStream_Recv (newRpcStream () eof_codec greeter) (Some ''m'') w0
     = (Some ''EOF'', newRpcStream () eof_codec greeter,
        w0\<lparr>calls := [ReadRequestHeader False, ReadRequestBody None]\<rparr>)
   \<and> rpcStream_Recv (newRpcStream () broken_codec greeter) (Some ''m'') w0
     = (Some ''broken pipe'', newRpcStream () broken_codec greeter,
        w0\<lparr>calls := [ReadRequestHeader False, ReadRequestBody (Some ''m'')]\<rparr>)
   \<and> rpcStream_Recv (newRpcStream () fake_codec greeter) (Some ''m'') w0
     = (None, newRpcStream () fake_codec greeter,
        w0\<lparr>calls := [ReadRequestHeader False, ReadRequestBody (Some ''m'')]\<rparr>)"
proof -
  have c: "calls w0 = []"
    by (simp add: w0_def)
  have 1: "codec (newRpcStream () eof_codec greeter) (calls w0) (ReadRequestHeader False) = Some ''EOF''"
    by (simp add: newRpcStream_def eof_codec_def)
  have 2: "codec (newRpcStream () broken_codec greeter) (calls w0) (ReadRequestHeader False) = None"
    "codec (newRpcStream () broken_codec greeter) (calls w0 @ [ReadRequestHeader False])
       (ReadRequestBody (Some ''m'')) = Some ''broken pipe''"
    by (simp_all add: newRpcStream_def broken_codec_def)
  have 3: "codec (newRpcStream () fake_codec greeter) (calls w0) (ReadRequestHeader False) = None"
    "codec (newRpcStream () fake_codec greeter) (calls w0 @ [ReadRequestHeader False])
       (ReadRequestBody (Some ''m'')) = None"
    by (simp_all add: newRpcStream_def fake_codec_def)
  have a: "rpcStream_Recv (newRpcStream () eof_codec greeter) (Some ''m'') w0
     = (Some ''EOF'', newRpcStream () eof_codec greeter,
        w0\<lparr>calls := calls w0 @ [ReadRequestHeader False, ReadRequestBody None]\<rparr>)"
    using Recv_header_then_body [of "newRpcStream () eof_codec greeter" w0 "''EOF''" "Some ''m''"] 1
    by simp
  have b: "rpcStream_Recv (newRpcStream () broken_codec greeter) (Some ''m'') w0
     = (Some ''broken pipe'', newRpcStream () broken_codec greeter,
        w0\<lparr>calls := calls w0 @ [ReadRequestHeader False, ReadRequestBody (Some ''m'')]\<rparr>)"
    using Recv_header_then_body [of "newRpcStream () broken_codec greeter" w0 "''EOF''" "Some ''m''"] 2
    by simp
  have d: "rpcStream_Recv (newRpcStream () fake_codec greeter) (Some ''m'') w0
     = (None, newRpcStream () fake_codec greeter,
        w0\<lparr>calls := calls w0 @ [ReadRequestHeader False, ReadRequestBody (Some ''m'')]\<rparr>)"
    using Recv_header_then_body [of "newRpcStream () fake_codec greeter" w0 "''EOF''" "Some ''m''"] 3
    by simp
  show ?thesis
    using a b d by (simp add: c)
qed

subsection \<open>The first envelope\<close>

text \<open>
  C3, as the code has it. On a new stream over a request with service \<^verbatim>\<open>Greeter\<close> and
  method \<^verbatim>\<open>Hello\<close>, the first \<^verbatim>\<open>Send(msg)\<close> makes one call on the codec, the write of
  \<open>msg\<close> under an envelope whose \<^verbatim>\<open>ServiceMethod\<close> is the request's method \<^verbatim>\<open>Hello\<close>
  and whose sequence number is 0, with the flag false; it returns what the write
  returned, and the counter is 1 afterwards. The service name is not read.
\<close>

theorem first_Send_envelope:
  assumes "Service req = ''Greeter''" and "Method req = ''Hello''"
    and "rpcStream_Send (newRpcStream ctx cdc req) msg w = (e, r1, w1)"
  shows "calls w1 = calls w @ [WriteResponse \<lparr>ServiceMethod = ''Hello'', Seq = 0\<rparr> msg False]
       \<and> e = cdc (calls w) (WriteResponse \<lparr>ServiceMethod = ''Hello'', Seq = 0\<rparr> msg False)
       \<and> seq r1 = 1"
  using Send_effect [OF assms(3)] assms(1,2) by (simp add: newRpcStream_def)

theorem first_Send_envelope_witness:
  "rpcStream_Send (newRpcStream () fake_codec greeter) (Some ''hi'') w0
     = (None, (newRpcStream () fake_codec greeter)\<lparr>seq := 1\<rparr>,
        w0\<lparr>calls := [WriteResponse \<lparr>ServiceMethod = ''Hello'', Seq = 0\<rparr> (Some ''hi'') False]\<rparr>)
   \<and> calls (w0\<lparr>calls := [WriteResponse \<lparr>ServiceMethod = ''Hello'', Seq = 0\<rparr> (Some ''hi'') False]\<rparr>)
     = calls w0 @ [WriteResponse \<lparr>ServiceMethod = ''Hello'', Seq = 0\<rparr> (Some ''hi'') False]
   \<and> seq ((newRpcStream () fake_codec greeter)\<lparr>seq := 1\<rparr>) = 1"
proof -
  have g: "Service greeter = ''Greeter''" "Method greeter = ''Hello''"
    by (simp_all add: greeter_def)
  have s: "rpcStream_Send (newRpcStream () fake_codec greeter) (Some ''hi'') w0
     = (None, (newRpcStream () fake_codec greeter)\<lparr>seq := 1\<rparr>,
        w0\<lparr>calls := [WriteResponse \<lparr>ServiceMethod = ''Hello'', Seq = 0\<rparr> (Some ''hi'') False]\<rparr>)"
    by (simp add: rpcStream_Send_def invoke_def newRpcStream_def fake_codec_def greeter_def w0_def)
  show ?thesis
    using first_Send_envelope [OF g s] s by simp
qed

text \<open>
  The claim as written has the envelope carry the service \<^verbatim>\<open>Greeter\<close>. The envelope
  written for the request \<^verbatim>\<open>{Greeter, Hello}\<close> has the method and the number only, and
  it is the envelope written for a request of another service with the same method.
\<close>

theorem first_Send_envelope_has_no_service:
  "Service greeter = ''Greeter''
   \<and> envelopes (calls (snd (snd (rpcStream_Send (newRpcStream () fake_codec greeter) (Some ''hi'') w0))))
       = [\<lparr>ServiceMethod = ''Hello'', Seq = 0\<rparr>]
   \<and> envelopes (calls (snd (snd (rpcStream_Send
         (newRpcStream () fake_codec (greeter\<lparr>Service := ''Billing''\<rparr>)) (Some ''hi'') w0))))
       = [\<lparr>ServiceMethod = ''Hello'', Seq = 0\<rparr>]"
  by (simp add: rpcStream_Send_def invoke_def newRpcStream_def fake_codec_def greeter_def w0_def)

subsection \<open>The last error\<close>

text \<open>
  C4 at its failing input. The comment of the \<^verbatim>\<open>Streamer\<close> interface says that the last
  error is left in \<^verbatim>\<open>Error()\<close>. On a new stream whose codec fails the header read with
  \<^verbatim>\<open>EOF\<close>, \<^verbatim>\<open>Recv\<close> returns that error and leaves the stream as it was, so
  \<^verbatim>\<open>Error()\<close> still returns nil afterwards.
\<close>

theorem Recv_error_is_not_left_in_Error:
  "rpcStream_Recv (newRpcStream () eof_codec greeter) (Some ''m'') w0
     = (Some ''EOF'', newRpcStream () eof_codec greeter,
        w0\<lparr>calls := [ReadRequestHeader False, ReadRequestBody None]\<rparr>)
   \<and> rpcStream_Error (fst (snd (rpcStream_Recv (newRpcStream () eof_codec greeter) (Some ''m'') w0)))
     = None"
  by (simp add: rpcStream_Recv_def rpcStream_Error_def invoke_def newRpcStream_def eof_codec_def
      w0_def)

text \<open>
  C5. \<^verbatim>\<open>Send\<close> returns the error of the codec's write and does not store it: whatever
  the write returns, \<^verbatim>\<open>Error()\<close> gives after the call what it gave before it.
\<close>

theorem Send_does_not_record_its_error:
  assumes "rpcStream_Send r msg w = (e, r1, w1)"
  shows "e = codec r (calls w) (WriteResponse \<lparr>ServiceMethod = Method (request r), Seq = seq r\<rparr> msg False)
       \<and> rpcStream_Error r1 = rpcStream_Error r"
  using Send_effect [OF assms] by (simp add: rpcStream_Error_def)

theorem Send_does_not_record_its_error_witness:
  "rpcStream_Send (newRpcStream () broken_codec greeter) (Some ''hi'') w0
     = (Some ''broken pipe'', (newRpcStream () broken_codec greeter)\<lparr>seq := 1\<rparr>,
        \<lparr>calls = [WriteResponse \<lparr>ServiceMethod = ''Hello'', Seq = 0\<rparr> (Some ''hi'') False],
         stderr = [''rpc: writing response: broken pipe'']\<rparr>)
   \<and> rpcStream_Error ((newRpcStream () broken_codec greeter)\<lparr>seq := 1\<rparr>) = None
   \<and> rpcStream_Error (newRpcStream () broken_codec greeter) = None"
proof -
  have s: "rpcStream_Send (newRpcStream () broken_codec greeter) (Some ''hi'') w0
     = (Some ''broken pipe'', (newRpcStream () broken_codec greeter)\<lparr>seq := 1\<rparr>,
        \<lparr>calls = [WriteResponse \<lparr>ServiceMethod = ''Hello'', Seq = 0\<rparr> (Some ''hi'') False],
         stderr = [''rpc: writing response: broken pipe'']\<rparr>)"
    by (simp add: rpcStream_Send_def invoke_def Println_def newRpcStream_def broken_codec_def
        greeter_def w0_def)
  have n: "rpcStream_Error (newRpcStream () broken_codec greeter) = None"
    by (simp add: rpcStream_Error_def newRpcStream_def)
  show ?thesis
    using Send_does_not_record_its_error [OF s] s n by simp
qed

subsection \<open>Close\<close>

text \<open>
  C6. A call of \<^verbatim>\<open>Close\<close> sets \<^verbatim>\<open>closed\<close>, makes one call of the codec's \<^verbatim>\<open>Close\<close>
  and returns what that call returned, an error or nil. A second call of \<^verbatim>\<open>Close\<close>
  leaves the stream as the first left it, \<^verbatim>\<open>closed\<close> still set, and calls the codec's
  \<^verbatim>\<open>Close\<close> once more.
\<close>

theorem Close_sets_closed_and_closes_codec:
  assumes "rpcStream_Close r w = (e, r1, w1)"
    and "rpcStream_Close r1 w1 = (e', r2, w2)"
  shows "closed r1 \<and> e = codec r (calls w) Close \<and> calls w1 = calls w @ [Close]
       \<and> r2 = r1 \<and> closed r2 \<and> e' = codec r (calls w @ [Close]) Close
       \<and> calls w2 = calls w @ [Close, Close]"
  using Close_effect [OF assms(1)] Close_effect [OF assms(2)] by simp

theorem Close_sets_closed_and_closes_codec_witness:
  "rpcStream_Close (newRpcStream () broken_codec greeter) w0
     = (Some ''broken pipe'', (newRpcStream () broken_codec greeter)\<lparr>closed := True\<rparr>,
        w0\<lparr>calls := [Close]\<rparr>)
   \<and> rpcStream_Close ((newRpcStream () broken_codec greeter)\<lparr>closed := True\<rparr>) (w0\<lparr>calls := [Close]\<rparr>)
     = (Some ''broken pipe'', (newRpcStream () broken_codec greeter)\<lparr>closed := True\<rparr>,
        w0\<lparr>calls := [Close, Close]\<rparr>)
   \<and> closed ((newRpcStream () broken_codec greeter)\<lparr>closed := True\<rparr>)"
proof -
  have a: "rpcStream_Close (newRpcStream () broken_codec greeter) w0
     = (Some ''broken pipe'', (newRpcStream () broken_codec greeter)\<lparr>closed := True\<rparr>,
        w0\<lparr>calls := [Close]\<rparr>)"
    by (simp add: rpcStream_Close_def invoke_def newRpcStream_def broken_codec_def w0_def)
  have b: "rpcStream_Close ((newRpcStream () broken_codec greeter)\<lparr>closed := True\<rparr>) (w0\<lparr>calls := [Close]\<rparr>)
     = (Some ''broken pipe'', (newRpcStream () broken_codec greeter)\<lparr>closed := True\<rparr>,
        w0\<lparr>calls := [Close, Close]\<rparr>)"
    by (simp add: rpcStream_Close_def invoke_def newRpcStream_def broken_codec_def w0_def)
  show ?thesis
    using Close_sets_closed_and_closes_codec [OF a b] a b by simp
qed

subsection \<open>What the methods leave unchanged\<close>

lemma step_frame:
  assumes "step x r w = (y, r1, w1)"
  shows "err r1 = err r" and "request r1 = request r" and "context' r1 = context' r"
    and "codec r1 = codec r"
    and "seq r1 = (case x of OpSend msg \<Rightarrow> seq r + 1 | _ \<Rightarrow> seq r)"
    and "closed r1 = (case x of OpClose \<Rightarrow> True | _ \<Rightarrow> closed r)"
    and "r1 = (case x of OpSend msg \<Rightarrow> r\<lparr>seq := seq r + 1\<rparr> | OpClose \<Rightarrow> r\<lparr>closed := True\<rparr> | _ \<Rightarrow> r)"
  using assms
  by (cases x; auto split: prod.splits dest: Send_effect(1) Recv_effect(1) Close_effect(1))+

text \<open>
  C10. \<^verbatim>\<open>Recv\<close>, \<^verbatim>\<open>Context\<close>, \<^verbatim>\<open>Request\<close> and \<^verbatim>\<open>Error\<close> return the stream as it was,
  whether they succeed or fail. Of the six methods only \<^verbatim>\<open>Send\<close> changes \<^verbatim>\<open>seq\<close> and
  only \<^verbatim>\<open>Close\<close> changes \<^verbatim>\<open>closed\<close>; none changes the error, the request, the context or
  the codec. So a use of the stream without a Send leaves the counter where it was, and
  one without a Close leaves \<^verbatim>\<open>closed\<close> as it was.
\<close>

theorem only_Send_and_Close_change_the_stream:
  "(step x r w = (y, r1, w1) \<longrightarrow>
      ((x = OpContext \<or> x = OpRequest \<or> x = OpError \<or> (\<exists>msg. x = OpRecv msg)) \<longrightarrow> r1 = r)
      \<and> ((\<forall>msg. x \<noteq> OpSend msg) \<longrightarrow> seq r1 = seq r)
      \<and> (x \<noteq> OpClose \<longrightarrow> closed r1 = closed r)
      \<and> err r1 = err r \<and> request r1 = request r \<and> context' r1 = context' r \<and> codec r1 = codec r)
 \<and> (run xs r w = (ys, r2, w2) \<longrightarrow>
      (sends xs = 0 \<longrightarrow> seq r2 = seq r)
      \<and> (OpClose \<notin> set xs \<longrightarrow> closed r2 = closed r)
      \<and> err r2 = err r \<and> request r2 = request r \<and> context' r2 = context' r \<and> codec r2 = codec r)"
proof
  show "step x r w = (y, r1, w1) \<longrightarrow>
      ((x = OpContext \<or> x = OpRequest \<or> x = OpError \<or> (\<exists>msg. x = OpRecv msg)) \<longrightarrow> r1 = r)
      \<and> ((\<forall>msg. x \<noteq> OpSend msg) \<longrightarrow> seq r1 = seq r)
      \<and> (x \<noteq> OpClose \<longrightarrow> closed r1 = closed r)
      \<and> err r1 = err r \<and> request r1 = request r \<and> context' r1 = context' r \<and> codec r1 = codec r"
  proof
    assume st: "step x r w = (y, r1, w1)"
    show "((x = OpContext \<or> x = OpRequest \<or> x = OpError \<or> (\<exists>msg. x = OpRecv msg)) \<longrightarrow> r1 = r)
      \<and> ((\<forall>msg. x \<noteq> OpSend msg) \<longrightarrow> seq r1 = seq r)
      \<and> (x \<noteq> OpClose \<longrightarrow> closed r1 = closed r)
      \<and> err r1 = err r \<and> request r1 = request r \<and> context' r1 = context' r \<and> codec r1 = codec r"
      using step_frame [OF st] by (cases x) auto
  qed
  show "run xs r w = (ys, r2, w2) \<longrightarrow>
      (sends xs = 0 \<longrightarrow> seq r2 = seq r)
      \<and> (OpClose \<notin> set xs \<longrightarrow> closed r2 = closed r)
      \<and> err r2 = err r \<and> request r2 = request r \<and> context' r2 = context' r \<and> codec r2 = codec r"
  proof (induction xs arbitrary: r w ys)
    case Nil
    show ?case by simp
  next
    case (Cons x xs)
    show ?case
    proof
      assume rn: "run (x # xs) r w = (ys, r2, w2)"
      obtain y' r' w' where st: "step x r w = (y', r', w')"
        by (cases "step x r w") auto
      obtain ys' where rest: "run xs r' w' = (ys', r2, w2)"
        using rn st by (auto split: prod.splits)
      have ih: "(sends xs = 0 \<longrightarrow> seq r2 = seq r')
        \<and> (OpClose \<notin> set xs \<longrightarrow> closed r2 = closed r')
        \<and> err r2 = err r' \<and> request r2 = request r' \<and> context' r2 = context' r' \<and> codec r2 = codec r'"
        using Cons.IH rest by blast
      show "(sends (x # xs) = 0 \<longrightarrow> seq r2 = seq r)
        \<and> (OpClose \<notin> set (x # xs) \<longrightarrow> closed r2 = closed r)
        \<and> err r2 = err r \<and> request r2 = request r \<and> context' r2 = context' r \<and> codec r2 = codec r"
        using ih step_frame [OF st] by (cases x) auto
    qed
  qed
qed

theorem only_Send_and_Close_change_the_stream_witness:
  "step (OpRecv (Some ''m'')) (newRpcStream () eof_codec greeter) w0
     = (RetError (Some ''EOF''), newRpcStream () eof_codec greeter,
        w0\<lparr>calls := [ReadRequestHeader False, ReadRequestBody None]\<rparr>)
   \<and> run [OpContext, OpRequest, OpRecv (Some ''m''), OpError] (newRpcStream () eof_codec greeter) w0
     = ([RetContext (), RetRequest greeter, RetError (Some ''EOF''), RetError None],
        newRpcStream () eof_codec greeter,
        w0\<lparr>calls := [ReadRequestHeader False, ReadRequestBody None]\<rparr>)
   \<and> seq (newRpcStream () eof_codec greeter) = 0
   \<and> \<not> closed (newRpcStream () eof_codec greeter)"
proof -
  have a: "step (OpRecv (Some ''m'')) (newRpcStream () eof_codec greeter) w0
     = (RetError (Some ''EOF''), newRpcStream () eof_codec greeter,
        w0\<lparr>calls := [ReadRequestHeader False, ReadRequestBody None]\<rparr>)"
    by (simp add: rpcStream_Recv_def invoke_def newRpcStream_def eof_codec_def w0_def)
  have b: "run [OpContext, OpRequest, OpRecv (Some ''m''), OpError] (newRpcStream () eof_codec greeter) w0
     = ([RetContext (), RetRequest greeter, RetError (Some ''EOF''), RetError None],
        newRpcStream () eof_codec greeter,
        w0\<lparr>calls := [ReadRequestHeader False, ReadRequestBody None]\<rparr>)"
    by (simp add: rpcStream_Recv_def rpcStream_Context_def rpcStream_Request_def
        rpcStream_Error_def invoke_def newRpcStream_def eof_codec_def w0_def)
  have c: "seq (newRpcStream () eof_codec greeter) = 0" "\<not> closed (newRpcStream () eof_codec greeter)"
    by (simp_all add: newRpcStream_def)
  show ?thesis
    using only_Send_and_Close_change_the_stream
      [of "OpRecv (Some ''m'')" "newRpcStream () eof_codec greeter" w0 "RetError (Some ''EOF'')"
          "newRpcStream () eof_codec greeter" "w0\<lparr>calls := [ReadRequestHeader False, ReadRequestBody None]\<rparr>"
          "[OpContext, OpRequest, OpRecv (Some ''m''), OpError]"
          "[RetContext (), RetRequest greeter, RetError (Some ''EOF''), RetError None]"
          "newRpcStream () eof_codec greeter" "w0\<lparr>calls := [ReadRequestHeader False, ReadRequestBody None]\<rparr>"]
      a b c
    by simp
qed

section \<open>Properties of the default server\<close>

subsection \<open>Calls on the default server\<close>



lemma call_Some:
  "DefaultServer st = Some n \<Longrightarrow>
     call reply m st = (Returned (reply (history n (events st))), st\<lparr>events := events st @ [Call n m]\<rparr>)"
  by (simp add: call_def emit_def)

lemma call_None: "DefaultServer st = None \<Longrightarrow> call reply m st = (Panic, st)"
  by (simp add: call_def)


lemma Start_None: "DefaultServer st = None \<Longrightarrow> Start env st = (Panic, st)"
  by (simp add: Start_def and_then_def call_None)


lemma Stop_None:
  "DefaultServer st = None \<Longrightarrow> Stop env st = (Panic, st\<lparr>events := events st @ [Logged ''Stopping server'']\<rparr>)"
  by (simp add: Stop_def call_None emit_def)

subsection \<open>Construction of the default server\<close>

text \<open>
  C7, as the code has it. The default server is constructed when the package is
  initialised, before any use of it. \<^verbatim>\<open>Init\<close> constructs a server, from the options
  passed, only when \<^verbatim>\<open>DefaultServer\<close> is nil, and then applies the options to it; when
  a server exists, \<^verbatim>\<open>Init\<close> only applies the options to that server and constructs
  nothing. A first use does not construct the default server either: with
  \<^verbatim>\<open>DefaultServer\<close> nil, \<^verbatim>\<open>Config\<close>, \<^verbatim>\<open>Handle\<close>, \<^verbatim>\<open>Subscribe\<close>, \<^verbatim>\<open>Register\<close>,
  \<^verbatim>\<open>Deregister\<close>, \<^verbatim>\<open>Start\<close>, \<^verbatim>\<open>Stop\<close>, \<^verbatim>\<open>String\<close> and \<^verbatim>\<open>Run\<close> panic and leave it
  nil, and \<^verbatim>\<open>NewServer\<close>, which constructs a server of its own, leaves
  \<^verbatim>\<open>DefaultServer\<close> as it is in every state.
\<close>

theorem Init_constructs_only_when_nil:
  fixes es :: "('o, 'h, 'u) event list" and st :: "('o, 'h, 'u) package"
  shows "DefaultServer (package_init es) = Some (length es)
   \<and> events (package_init es) = es @ [New (length es) []]
   \<and> (DefaultServer st = None \<longrightarrow>
        Init env opt st
          = (Returned (),
             \<lparr>DefaultServer = Some (length (events st)),
              events = events st @ [New (length (events st)) opt,
                                    Call (length (events st)) (CallInit opt)]\<rparr>))
   \<and> (DefaultServer st = Some n \<longrightarrow>
        Init env opt st = (Returned (), st\<lparr>events := events st @ [Call n (CallInit opt)]\<rparr>))
   \<and> (DefaultServer st = None \<longrightarrow>
        Config env st = (Panic, st) \<and> Handle env h st = (Panic, st)
        \<and> Subscribe env s st = (Panic, st) \<and> Register env st = (Panic, st)
        \<and> Deregister env st = (Panic, st) \<and> Start env st = (Panic, st)
        \<and> DefaultServer (snd (Stop env st)) = None \<and> fst (Stop env st) = Panic
        \<and> String' env st = (Panic, st) \<and> Run env st = (Panic, st))
   \<and> DefaultServer (snd (NewServer opt st)) = DefaultServer st
   \<and> events (snd (NewServer opt st)) = events st @ [New (fst (NewServer opt st)) opt]"
proof -
  have a: "DefaultServer (package_init es) = Some (length es)"
    "events (package_init es) = es @ [New (length es) []]"
    by (simp_all add: package_init_def newRpcServer_def emit_def)
  have b: "Init env opt st
          = (Returned (),
             \<lparr>DefaultServer = Some (length (events st)),
              events = events st @ [New (length (events st)) opt,
                                    Call (length (events st)) (CallInit opt)]\<rparr>)"
    if "DefaultServer st = None"
    using that by (simp add: Init_def newRpcServer_def emit_def call_def)
  have c: "Init env opt st = (Returned (), st\<lparr>events := events st @ [Call n (CallInit opt)]\<rparr>)"
    if "DefaultServer st = Some n"
    using that by (simp add: Init_def call_Some)
  have d: "Config env st = (Panic, st) \<and> Handle env h st = (Panic, st)
        \<and> Subscribe env s st = (Panic, st) \<and> Register env st = (Panic, st)
        \<and> Deregister env st = (Panic, st) \<and> Start env st = (Panic, st)
        \<and> DefaultServer (snd (Stop env st)) = None \<and> fst (Stop env st) = Panic
        \<and> String' env st = (Panic, st) \<and> Run env st = (Panic, st)"
    if "DefaultServer st = None"
    using that
    by (simp add: Config_def Handle_def Subscribe_def Register_def Deregister_def String'_def
        Run_def Start_None Stop_None call_None and_then_def)
  have e: "DefaultServer (snd (NewServer opt st)) = DefaultServer st"
    "events (snd (NewServer opt st)) = events st @ [New (fst (NewServer opt st)) opt]"
    by (simp_all add: NewServer_def newRpcServer_def emit_def)
  show ?thesis
    using a b c d e by blast
qed

theorem Init_constructs_only_when_nil_witness:
  "Init quiet_env [''address''] nil_package
     = (Returned (), \<lparr>DefaultServer = Some 0,
                      events = [New 0 [''address''], Call 0 (CallInit [''address''])]\<rparr>)
   \<and> Init quiet_env [''address''] (package_init [])
     = (Returned (), \<lparr>DefaultServer = Some 0,
                      events = [New 0 [], Call 0 (CallInit [''address''])]\<rparr>)
   \<and> Register quiet_env nil_package = (Panic, nil_package)"
proof -
  have n: "DefaultServer nil_package = None" "events nil_package = []"
    by (simp_all add: nil_package_def)
  have p: "package_init [] = (\<lparr>DefaultServer = Some 0, events = [New 0 []]\<rparr> :: (string, string, string) package)"
    by (simp add: package_init_def newRpcServer_def emit_def)
  have a: "Init quiet_env [''address''] nil_package
     = (Returned (), \<lparr>DefaultServer = Some 0,
                      events = [New 0 [''address''], Call 0 (CallInit [''address''])]\<rparr>)"
    using Init_constructs_only_when_nil [of "[]" nil_package quiet_env "[''address'']" 0 "''h''" "''s''"] n
    by simp
  have b: "Init quiet_env [''address''] (package_init [])
     = (Returned (), \<lparr>DefaultServer = Some 0,
                      events = [New 0 [], Call 0 (CallInit [''address''])]\<rparr>)"
    using Init_constructs_only_when_nil
      [of "[]" "package_init [] :: (string, string, string) package" quiet_env "[''address'']" 0 "''h''" "''s''"]
    by (simp add: p)
  have c: "Register quiet_env nil_package = (Panic, nil_package)"
    using Init_constructs_only_when_nil [of "[]" nil_package quiet_env "[''address'']" 0 "''h''" "''s''"] n
    by simp
  show ?thesis
    using a b c by simp
qed

text \<open>
  The claim as written has the default server constructed lazily, on first use. It
  exists once the package is initialised, with no function of the package called yet;
  and a first use that finds \<^verbatim>\<open>DefaultServer\<close> nil constructs nothing.
\<close>

theorem DefaultServer_is_not_constructed_on_first_use:
  "package_init [] = (\<lparr>DefaultServer = Some 0, events = [New 0 []]\<rparr> :: (string, string, string) package)
   \<and> Config quiet_env nil_package = (Panic, nil_package)
   \<and> DefaultServer nil_package = None"
  by (simp add: package_init_def newRpcServer_def emit_def Config_def call_def nil_package_def)

subsection \<open>Delegation\<close>




subsection \<open>Run\<close>



end
